theory Spec2Isabelle
  imports Complex_Main
begin

section \<open>Numbers and the geometry primitives of the host library\<close>

text \<open>
  The waveguide code computes with Python floats and with the point and vector classes of
  the host layout library (\<^verbatim>\<open>pya.DPoint\<close>, \<^verbatim>\<open>pya.DVector\<close>). Floats are modelled
  as real numbers, so rounding is not part of the model; every concrete input used below
  is one on which the float computation is exact or on which the statement does not depend
  on rounding. A Python division \<^verbatim>\<open>a / b\<close> with \<^verbatim>\<open>b == 0\<close> raises
  \<^verbatim>\<open>ZeroDivisionError\<close>, and an index out of range raises \<^verbatim>\<open>IndexError\<close>;
  both are results of the model. One property of the floats is kept, because it decides
  where the code raises: \<^verbatim>\<open>math.pi\<close> is not \<open>\<pi>\<close>, so \<^verbatim>\<open>math.sin\<close> and
  \<^verbatim>\<open>math.tan\<close> return \<^verbatim>\<open>0.0\<close> at the argument \<^verbatim>\<open>0.0\<close> only (see \<open>div_sin\<close> and
  \<open>div_tan\<close> below).
\<close>

datatype exn = IndexError | ZeroDivisionError

datatype DVector = DVector (vx: real) (vy: real)

datatype DPoint = DPoint (px: real) (py: real)

text \<open>Python's \<^verbatim>\<open>a / b\<close> on floats.\<close>

definition py_div :: "real \<Rightarrow> real \<Rightarrow> exn + real" where
  "py_div a b = (if b = 0 then Inl ZeroDivisionError else Inr (a / b))"

text \<open>\<^verbatim>\<open>math.atan2(y, x)\<close>, the angle of the vector \<open>(x, y)\<close> in \<open>(-\<pi>, \<pi>]\<close>.\<close>

definition atan2 :: "real \<Rightarrow> real \<Rightarrow> real" where
  "atan2 y x =
     (if 0 < x then arctan (y / x)
      else if x < 0 then (if 0 \<le> y then arctan (y / x) + pi else arctan (y / x) - pi)
      else if 0 < y then pi / 2
      else if y < 0 then - (pi / 2)
      else 0)"

text \<open>The operators of \<^verbatim>\<open>pya.DPoint\<close> and \<^verbatim>\<open>pya.DVector\<close> that the code uses.\<close>

definition p_sub :: "DPoint \<Rightarrow> DPoint \<Rightarrow> DVector" where
  \<comment> \<open>\<^verbatim>\<open>p - q\<close> on two points\<close>
  "p_sub p q = DVector (px p - px q) (py p - py q)"

definition p_add_v :: "DPoint \<Rightarrow> DVector \<Rightarrow> DPoint" where
  \<comment> \<open>\<^verbatim>\<open>p + v\<close>\<close>
  "p_add_v p v = DPoint (px p + vx v) (py p + vy v)"

definition p_sub_v :: "DPoint \<Rightarrow> DVector \<Rightarrow> DPoint" where
  \<comment> \<open>\<^verbatim>\<open>p - v\<close>\<close>
  "p_sub_v p v = DPoint (px p - vx v) (py p - vy v)"

definition v_add :: "DVector \<Rightarrow> DVector \<Rightarrow> DVector" where
  "v_add u v = DVector (vx u + vx v) (vy u + vy v)"

definition v_scale :: "DVector \<Rightarrow> real \<Rightarrow> DVector" where
  \<comment> \<open>\<^verbatim>\<open>v * s\<close> and \<^verbatim>\<open>s * v\<close>\<close>
  "v_scale v s = DVector (vx v * s) (vy v * s)"

definition v_div :: "DVector \<Rightarrow> real \<Rightarrow> DVector" where
  \<comment> \<open>\<^verbatim>\<open>v / s\<close>, the library's own division: it scales by the inverse and does not raise.
      Every use in the code comes after a Python division by the same length, which has
      raised already when the length is zero.\<close>
  "v_div v s = DVector (vx v / s) (vy v / s)"

definition v_length :: "DVector \<Rightarrow> real" where
  \<comment> \<open>\<^verbatim>\<open>v.length()\<close> and \<^verbatim>\<open>v.abs()\<close>\<close>
  "v_length v = sqrt ((vx v)\<^sup>2 + (vy v)\<^sup>2)"

definition distance :: "DPoint \<Rightarrow> DPoint \<Rightarrow> real" where
  \<comment> \<open>\<^verbatim>\<open>p.distance(q)\<close>\<close>
  "distance p q = sqrt ((px p - px q)\<^sup>2 + (py p - py q)\<^sup>2)"

definition vprod_sign :: "DVector \<Rightarrow> DVector \<Rightarrow> real" where
  \<comment> \<open>Modelled from the spec: \<^verbatim>\<open>DVector.vprod_sign\<close> belongs to the host library; the
      spec describes it as the signed 2-D cross product giving the orientation (left or
      right turn) of one vector relative to another. It is the sign of the cross product:
      1 for a left turn, -1 for a right turn, 0 for parallel vectors.\<close>
  "vprod_sign u v = sgn (vx u * vy v - vy u * vx v)"

definition R270 :: "DVector \<Rightarrow> DVector" where
  \<comment> \<open>\<^verbatim>\<open>pya.DTrans.R270.trans(v)\<close>: rotation by 270 degrees counterclockwise\<close>
  "R270 v = DVector (vy v) (- vx v)"

definition to_p :: "DPoint \<Rightarrow> DPoint" where
  \<comment> \<open>\<^verbatim>\<open>.to_p()\<close>: the same coordinates, as a point\<close>
  "to_p p = p"

definition to_v :: "DPoint \<Rightarrow> DVector" where
  \<comment> \<open>\<^verbatim>\<open>pya.DVector(p)\<close>: the same coordinates, as a vector\<close>
  "to_v p = DVector (px p) (py p)"

section \<open>The continuity verifier\<close>

text \<open>
  \<^verbatim>\<open>is_continuous\<close> first collects the two endpoints of every annotation path of the
  waveguide cell into the list \<^verbatim>\<open>endpoints\<close>, then counts the endpoints that have no
  endpoint of another piece nearby. The model starts from the list \<^verbatim>\<open>endpoints\<close>.
\<close>

type_synonym piece = "DPoint \<times> DPoint"

text \<open>
  The loop \<^verbatim>\<open>for j in range(num_segments)\<close> of \<^verbatim>\<open>find_connected_point\<close>, over the list
  of the indices still to visit; the result is the flag \<^verbatim>\<open>found_connected_point\<close>.
\<close>

fun find_loop :: "piece list \<Rightarrow> real \<Rightarrow> nat \<Rightarrow> DPoint \<Rightarrow> nat list \<Rightarrow> bool" where
  "find_loop endpoints tolerance i point [] = False"
| "find_loop endpoints tolerance i point (j # js) =
     (if i \<noteq> j \<and> (distance point (snd (endpoints ! j)) < tolerance
                  \<or> distance point (fst (endpoints ! j)) < tolerance)
      then True
      else find_loop endpoints tolerance i point js)"

text \<open>
  \<^verbatim>\<open>find_connected_point(point)\<close>, closed over \<open>i\<close>; it returns the updated counter
  \<^verbatim>\<open>num_non_connected_points\<close>.
\<close>

definition find_connected_point :: "piece list \<Rightarrow> real \<Rightarrow> nat \<Rightarrow> DPoint \<Rightarrow> nat \<Rightarrow> nat" where
  "find_connected_point endpoints tolerance i point num_non_connected_points =
     (if \<not> find_loop endpoints tolerance i point [0 ..< length endpoints]
      then num_non_connected_points + 1
      else num_non_connected_points)"

text \<open>
  The loop \<^verbatim>\<open>for i in range(num_segments)\<close>, with its \<^verbatim>\<open>break\<close>; the result is the
  flag \<^verbatim>\<open>is_continuous\<close>.
\<close>

fun segment_loop :: "piece list \<Rightarrow> real \<Rightarrow> nat list \<Rightarrow> nat \<Rightarrow> bool" where
  "segment_loop endpoints tolerance [] num_non_connected_points = True"
| "segment_loop endpoints tolerance (i # is) num_non_connected_points =
     (let n1 =
        (if distance (fst (endpoints ! i)) (snd (endpoints ! i)) \<noteq> 0
         then find_connected_point endpoints tolerance i (snd (endpoints ! i))
                (find_connected_point endpoints tolerance i (fst (endpoints ! i))
                   num_non_connected_points)
         else num_non_connected_points)
      in if n1 > 2 then False else segment_loop endpoints tolerance is n1)"

definition is_continuous :: "piece list \<Rightarrow> real \<Rightarrow> bool" where
  "is_continuous endpoints tolerance =
     segment_loop endpoints tolerance [0 ..< length endpoints] 0"

text \<open>
  The reading of the specification: an endpoint of piece \<open>i\<close> is matched when some other
  piece has an endpoint at a distance below the tolerance, and the pieces whose endpoints
  coincide are left out of the count.
\<close>

definition matched :: "piece list \<Rightarrow> real \<Rightarrow> nat \<Rightarrow> DPoint \<Rightarrow> bool" where
  "matched endpoints tolerance i point =
     (\<exists>j < length endpoints. j \<noteq> i \<and>
        (distance point (fst (endpoints ! j)) < tolerance
         \<or> distance point (snd (endpoints ! j)) < tolerance))"

definition unmatched_of :: "piece list \<Rightarrow> real \<Rightarrow> nat \<Rightarrow> nat" where
  "unmatched_of endpoints tolerance i =
     (if fst (endpoints ! i) = snd (endpoints ! i) then 0
      else (if matched endpoints tolerance i (fst (endpoints ! i)) then 0 else 1)
         + (if matched endpoints tolerance i (snd (endpoints ! i)) then 0 else 1))"

definition total_unmatched :: "piece list \<Rightarrow> real \<Rightarrow> nat" where
  "total_unmatched endpoints tolerance =
     (\<Sum>i \<leftarrow> [0 ..< length endpoints]. unmatched_of endpoints tolerance i)"

section \<open>The waveguide element and what it emits\<close>

text \<open>
  The parameters of the element that the synthesizer reads: the path, the termination
  lengths, the overlap, and the inherited \<^verbatim>\<open>a\<close>, \<^verbatim>\<open>b\<close>, \<^verbatim>\<open>margin\<close>, \<^verbatim>\<open>r\<close>
  and \<^verbatim>\<open>n\<close> (named \<open>elem_a\<close> ... here, a one-letter constant would capture variables).
\<close>

record waveguide =
  path :: "DPoint list"
  term1 :: real
  term2 :: real
  corner_safety_overlap :: real
  elem_a :: real
  elem_b :: real
  elem_margin :: real
  elem_r :: real
  elem_n :: int

text \<open>The two layers of face 0 that the terminations are drawn on.\<close>

datatype layer = base_metal_gap_wo_grid | ground_grid_avoidance

text \<open>
  The sub-cells created by \<^verbatim>\<open>add_element\<close>, with the parameter that differs from the
  element's own: the length of a straight piece; the turn angle and the facet count of a
  curved one.
\<close>

datatype pcell = WaveguideCoplanarStraight real | WaveguideCoplanarCurved real int

text \<open>\<^verbatim>\<open>pya.DCplxTrans(mag, rot, mirrx, disp)\<close>, with the rotation in degrees.\<close>

datatype DCplxTrans = DCplxTrans real real bool DVector

text \<open>
  Everything the synthesizer does to the cell, in the order it does it: a polygon inserted
  into a layer (the points given to \<^verbatim>\<open>pya.DPolygon\<close>, after the shift to the end point),
  a port added, a sub-cell inserted under a transformation.
\<close>

datatype cmd =
    InsertPolygon layer "DPoint list"
  | AddPort string DPoint DVector
  | InsertCell pcell DCplxTrans

text \<open>
  A run returns its value or the exception raised, and the cell as it is at that moment,
  so what was emitted before an exception stays visible.
\<close>

type_synonym 'a run = "(exn + 'a) \<times> cmd list"

text \<open>Python's \<^verbatim>\<open>xs[i]\<close>: a negative index counts from the end.\<close>

definition py_index :: "'a list \<Rightarrow> int \<Rightarrow> exn + 'a" where
  "py_index xs i =
     (let len = int (length xs); j = (if i < 0 then len + i else i)
      in if 0 \<le> j \<and> j < len then Inr (xs ! nat j) else Inl IndexError)"

text \<open>
  \<^verbatim>\<open>x / math.sin(t)\<close> and \<^verbatim>\<open>x / math.tan(t)\<close>. The float sine and tangent are
  \<^verbatim>\<open>0.0\<close> only at \<^verbatim>\<open>t == 0.0\<close>, and only there does the division raise. At the
  other zeros of the real sine and tangent (\<open>t = \<pi>\<close> for the angles of this code, a turn
  of \<open>-\<pi>\<close>) the float argument is \<^verbatim>\<open>math.pi\<close>, the float sine is about \<open>1.2e-16\<close>, and
  the code divides and goes on. Where the cosine is zero the tangent has a pole, which no
  float argument hits either. In both cases the dividend of this code,
  \<open>vprod_sign v1 v2 * r\<close>, is 0 (lemma \<open>side_zero\<close>), so the float quotient is 0; the
  quotient of the model is 0 there as well (lemmas \<open>div_sin_zero\<close>, \<open>div_tan_zero\<close>).
\<close>

definition div_sin :: "real \<Rightarrow> real \<Rightarrow> exn + real" where
  "div_sin x t = (if t = 0 then Inl ZeroDivisionError else Inr (x / sin t))"

definition div_tan :: "real \<Rightarrow> real \<Rightarrow> exn + real" where
  "div_tan x t = (if t = 0 then Inl ZeroDivisionError else Inr (x / tan t))"

section \<open>The corner solver\<close>

definition get_corner_data ::
  "DPoint \<Rightarrow> DPoint \<Rightarrow> DPoint \<Rightarrow> real \<Rightarrow> exn + (DVector \<times> DVector \<times> real \<times> real \<times> DPoint)" where
  "get_corner_data point1 point2 point3 r =
     (let v1 = p_sub point2 point1;
          v2 = p_sub point3 point2;
          alpha1 = atan2 (vy v1) (vx v1);
          alpha2 = atan2 (vy v2) (vx v2);
          alphacorner = ((pi - (alpha2 - alpha1)) / 2) + alpha2
      in case div_sin (vprod_sign v1 v2 * r) ((pi - (alpha2 - alpha1)) / 2) of
           Inl e \<Rightarrow> Inl e
         | Inr distcorner \<Rightarrow>
             Inr (v1, v2, alpha1, alpha2,
                  p_add_v point2
                    (DVector (cos alphacorner * distcorner) (sin alphacorner * distcorner))))"

section \<open>The termination builder\<close>

definition shift_start :: "DPoint \<Rightarrow> DVector \<Rightarrow> DPoint" where
  \<comment> \<open>\<^verbatim>\<open>pya.DTrans(pya.DVector(point_2))\<close> applied to a corner of the polygon\<close>
  "shift_start point_2 w = p_add_v point_2 w"

definition produce_end_termination ::
  "waveguide \<Rightarrow> DPoint \<Rightarrow> DPoint \<Rightarrow> real \<Rightarrow> cmd list \<Rightarrow> unit run" where
  "produce_end_termination elem point_1 point_2 term_len cell =
     (let a = elem_a elem; b = elem_b elem in
      case py_div 1 (distance point_1 point_2) of
        Inl e \<Rightarrow> (Inl e, cell)
      | Inr k \<Rightarrow>
          (let v = v_scale (p_sub point_2 point_1) k;
               u = R270 v;
               cell1 =
                 (if term_len > 0
                  then cell @ [InsertPolygon base_metal_gap_wo_grid
                         (map (shift_start point_2)
                            [v_scale u (a / 2 + b),
                             v_add (v_scale u (a / 2 + b)) (v_scale v term_len),
                             v_add (v_scale u (- a / 2 - b)) (v_scale v term_len),
                             v_scale u (- a / 2 - b)])]
                  else cell);
               term_len2 = term_len + elem_margin elem
           in (Inr (),
               cell1 @ [InsertPolygon ground_grid_avoidance
                  (map (shift_start point_2)
                     [v_scale u (a / 2 + b + elem_margin elem),
                      v_add (v_scale u (a / 2 + b + elem_margin elem)) (v_scale v term_len2),
                      v_add (v_scale u (- a / 2 - b - elem_margin elem)) (v_scale v term_len2),
                      v_scale u (- a / 2 - b - elem_margin elem)])])))"

section \<open>The path synthesizer\<close>

definition min_angle :: real where
  \<comment> \<open>\<^verbatim>\<open>min_angle = 1e-5\<close>\<close>
  "min_angle = 1 / 100000"

text \<open>
  One iteration of \<^verbatim>\<open>for i in range(0, len(points) - 2)\<close> (the variable \<^verbatim>\<open>cut\<close> is
  \<open>cut_len\<close> here), from the cursor
  \<^verbatim>\<open>segment_last\<close> and the cell to the new cursor and the new cell. The three points
  read are in range, since \<open>i < length points - 2\<close> in the loop.
\<close>

definition corner_step ::
  "waveguide \<Rightarrow> DPoint list \<Rightarrow> nat \<Rightarrow> DPoint \<Rightarrow> cmd list \<Rightarrow> DPoint run" where
  "corner_step elem points i segment_last cell =
     (case get_corner_data (points ! i) (points ! (i + 1)) (points ! (i + 2)) (elem_r elem) of
        Inl e \<Rightarrow> (Inl e, cell)
      | Inr (v1, v2, alpha1, alpha2, corner_pos) \<Rightarrow>
          (let segment_start = segment_last;
               segment_end = points ! (i + 1)
           in case div_tan (vprod_sign v1 v2 * elem_r elem) ((pi - (alpha2 - alpha1)) / 2) of
                Inl e \<Rightarrow> (Inl e, cell)
              | Inr cut_len \<Rightarrow>
                  (let l = distance segment_start segment_end - cut_len + corner_safety_overlap elem;
                       angle = 180 / pi * atan2 (py segment_end - py segment_start)
                                                (px segment_end - px segment_start);
                       cell1 = cell @ [InsertCell (WaveguideCoplanarStraight l)
                                         (DCplxTrans 1 angle False (to_v segment_start))]
                   in case py_div 1 (v_length v2) of
                        Inl e \<Rightarrow> (Inl e, cell1)
                      | Inr k \<Rightarrow>
                          (let segment_last2 =
                                 to_p (p_sub_v
                                   (p_add_v (points ! (i + 1)) (v_scale (v_scale v2 k) cut_len))
                                   (v_div (v_scale v2 (corner_safety_overlap elem)) (v_length v2)));
                               alpha = alpha2 - alpha1
                           in (Inr segment_last2,
                               if \<bar>alpha\<bar> \<ge> min_angle
                               then cell1 @ [InsertCell (WaveguideCoplanarCurved alpha (elem_n elem))
                                               (DCplxTrans 1
                                                  (alpha1 / pi * 180 - vprod_sign v1 v2 * 90)
                                                  False (to_v corner_pos))]
                               else cell1)))))"

text \<open>The loop itself, over the indices \<^verbatim>\<open>range(0, len(points) - 2)\<close> still to visit.\<close>

fun corner_loop ::
  "waveguide \<Rightarrow> DPoint list \<Rightarrow> nat list \<Rightarrow> DPoint \<Rightarrow> cmd list \<Rightarrow> DPoint run" where
  "corner_loop elem points [] segment_last cell = (Inr segment_last, cell)"
| "corner_loop elem points (i # is) segment_last cell =
     (case corner_step elem points i segment_last cell of
        (Inl e, cell1) \<Rightarrow> (Inl e, cell1)
      | (Inr segment_last2, cell1) \<Rightarrow> corner_loop elem points is segment_last2 cell1)"

text \<open>
  The start of the first straight piece: moved back by the overlap when there is a start
  termination.
\<close>

definition first_segment_start :: "waveguide \<Rightarrow> DPoint list \<Rightarrow> DPoint" where
  "first_segment_start elem points =
     (if term1 elem > 0 \<and> length points > 1
      then (let v2 = p_sub (points ! 1) (points ! 0)
            in to_p (p_sub_v (points ! 0)
                       (v_div (v_scale v2 (corner_safety_overlap elem)) (v_length v2))))
      else points ! 0)"

text \<open>
  The last straight piece and the end termination, after the loop. The indices
  \<^verbatim>\<open>points[-1]\<close> and \<^verbatim>\<open>points[-2]\<close> are in range here: the first statement of
  \<^verbatim>\<open>produce_waveguide\<close> has read \<^verbatim>\<open>points[1]\<close>.
\<close>

definition last_segment :: "waveguide \<Rightarrow> DPoint list \<Rightarrow> DPoint \<Rightarrow> cmd list \<Rightarrow> unit run" where
  "last_segment elem points segment_last cell =
     (let segment_start = segment_last;
          segment_end = last points;
          l0 = distance segment_start segment_end;
          l = (if term2 elem > 0 then l0 + corner_safety_overlap elem else l0);
          angle = 180 / pi * atan2 (py segment_end - py segment_start)
                                   (px segment_end - px segment_start)
      in case produce_end_termination elem (points ! (length points - 2)) (last points)
                (term2 elem) cell of
           (Inl e, cell1) \<Rightarrow> (Inl e, cell1)
         | (Inr u, cell1) \<Rightarrow>
             (Inr (),
              cell1 @ [AddPort ''b'' (last points)
                         (p_sub (last points) (points ! (length points - 2))),
                       InsertCell (WaveguideCoplanarStraight l)
                         (DCplxTrans 1 angle False (to_v segment_start))]))"

definition produce_waveguide :: "waveguide \<Rightarrow> cmd list \<Rightarrow> unit run" where
  "produce_waveguide elem cell =
     (let points = path elem in
      case py_index points 1 of
        Inl e \<Rightarrow> (Inl e, cell)
      | Inr p1 \<Rightarrow>
         (case py_index points 0 of
            Inl e \<Rightarrow> (Inl e, cell)
          | Inr p0 \<Rightarrow>
             (case produce_end_termination elem p1 p0 (term1 elem) cell of
                (Inl e, cell1) \<Rightarrow> (Inl e, cell1)
              | (Inr u, cell1) \<Rightarrow>
                 (let cell2 = cell1 @ [AddPort ''a'' p0 (p_sub p0 p1)]
                  in case corner_loop elem points [0 ..< length points - 2]
                            (first_segment_start elem points) cell2 of
                       (Inl e, cell3) \<Rightarrow> (Inl e, cell3)
                     | (Inr segment_last, cell3) \<Rightarrow>
                         last_segment elem points segment_last cell3))))"

section \<open>The formulas of the specification\<close>

text \<open>
  The quantities of the specification's corner solver, written from its words, for the
  corner at \<open>p2\<close> between the legs \<open>p1 \<rightarrow> p2\<close> and \<open>p2 \<rightarrow> p3\<close>: the headings
  \<open>alpha1\<close> and \<open>alpha2\<close>, the turn \<open>alpha2 - alpha1\<close>, \<open>half = (\<pi> - turn) / 2\<close>, the
  side sign \<open>s\<close>, the placement point of the arc and the tangent length \<open>cut\<close>.
\<close>

definition heading :: "DPoint \<Rightarrow> DPoint \<Rightarrow> real" where
  "heading p q = atan2 (py q - py p) (px q - px p)"

definition turn :: "DPoint \<Rightarrow> DPoint \<Rightarrow> DPoint \<Rightarrow> real" where
  "turn p1 p2 p3 = heading p2 p3 - heading p1 p2"

definition half :: "DPoint \<Rightarrow> DPoint \<Rightarrow> DPoint \<Rightarrow> real" where
  "half p1 p2 p3 = (pi - turn p1 p2 p3) / 2"

definition side :: "DPoint \<Rightarrow> DPoint \<Rightarrow> DPoint \<Rightarrow> real" where
  "side p1 p2 p3 = vprod_sign (p_sub p2 p1) (p_sub p3 p2)"

definition spec_corner_pos :: "DPoint \<Rightarrow> DPoint \<Rightarrow> DPoint \<Rightarrow> real \<Rightarrow> DPoint" where
  "spec_corner_pos p1 p2 p3 r =
     (let alphacorner = half p1 p2 p3 + heading p2 p3;
          distcorner = side p1 p2 p3 * r / sin (half p1 p2 p3)
      in p_add_v p2 (v_scale (DVector (cos alphacorner) (sin alphacorner)) distcorner))"

definition spec_cut :: "DPoint \<Rightarrow> DPoint \<Rightarrow> DPoint \<Rightarrow> real \<Rightarrow> real" where
  "spec_cut p1 p2 p3 r = side p1 p2 p3 * r / tan (half p1 p2 p3)"

definition unit_v :: "DVector \<Rightarrow> DVector" where
  \<comment> \<open>\<open>unit(v)\<close>, the vector \<open>v\<close> scaled to length 1\<close>
  "unit_v v = v_scale v (1 / v_length v)"

text \<open>
  The cursor of the synthesizer before the iteration for the interior vertex \<open>i\<close>, from
  the specification's step 3d: after the vertex \<open>points[i+1]\<close> it is
  \<open>points[i+1] + unit(v2) * cut - corner_safety_overlap * unit(v2)\<close>.
\<close>

fun spec_cursor :: "waveguide \<Rightarrow> DPoint list \<Rightarrow> nat \<Rightarrow> DPoint" where
  "spec_cursor elem points 0 = first_segment_start elem points"
| "spec_cursor elem points (Suc i) =
     (let v2 = p_sub (points ! (i + 2)) (points ! (i + 1));
          c = spec_cut (points ! i) (points ! (i + 1)) (points ! (i + 2)) (elem_r elem)
      in p_sub_v (p_add_v (points ! (i + 1)) (v_scale (unit_v v2) c))
                 (v_scale (unit_v v2) (corner_safety_overlap elem)))"

text \<open>
  The straight piece of the specification's step 3c for the interior vertex \<open>i\<close>, and the
  arc of step 3e.
\<close>

definition straight_at :: "waveguide \<Rightarrow> DPoint list \<Rightarrow> nat \<Rightarrow> DPoint \<Rightarrow> cmd" where
  "straight_at elem points i cursor =
     (let c = spec_cut (points ! i) (points ! (i + 1)) (points ! (i + 2)) (elem_r elem)
      in InsertCell
           (WaveguideCoplanarStraight
              (distance cursor (points ! (i + 1)) - c + corner_safety_overlap elem))
           (DCplxTrans 1 (180 / pi * heading cursor (points ! (i + 1))) False (to_v cursor)))"

definition straight_piece :: "waveguide \<Rightarrow> DPoint list \<Rightarrow> nat \<Rightarrow> cmd" where
  "straight_piece elem points i = straight_at elem points i (spec_cursor elem points i)"

definition arc_piece :: "waveguide \<Rightarrow> DPoint list \<Rightarrow> nat \<Rightarrow> cmd" where
  "arc_piece elem points i =
     (let p1 = points ! i; p2 = points ! (i + 1); p3 = points ! (i + 2)
      in InsertCell
           (WaveguideCoplanarCurved (turn p1 p2 p3) (elem_n elem))
           (DCplxTrans 1 (heading p1 p2 / pi * 180 - side p1 p2 p3 * 90) False
              (to_v (spec_corner_pos p1 p2 p3 (elem_r elem)))))"

definition corner_pieces :: "waveguide \<Rightarrow> DPoint list \<Rightarrow> nat \<Rightarrow> cmd list" where
  "corner_pieces elem points i =
     straight_piece elem points i #
     (if \<bar>turn (points ! i) (points ! (i + 1)) (points ! (i + 2))\<bar> \<ge> min_angle
      then [arc_piece elem points i] else [])"

text \<open>The final straight run of step 4, from the last cursor to the last point.\<close>

definition final_piece :: "waveguide \<Rightarrow> DPoint list \<Rightarrow> cmd" where
  "final_piece elem points =
     (let cursor = spec_cursor elem points (length points - 2);
          l = distance cursor (last points)
      in InsertCell
           (WaveguideCoplanarStraight
              (if term2 elem > 0 then l + corner_safety_overlap elem else l))
           (DCplxTrans 1 (180 / pi * heading cursor (last points)) False (to_v cursor)))"

text \<open>
  The two rectangles of the specification's termination builder at \<open>endpoint\<close>, with
  \<open>v\<close> the unit vector from \<open>inward\<close> to \<open>endpoint\<close> and \<open>u\<close> perpendicular to it (the
  code's rotation): half-width \<open>w\<close> across, length \<open>len\<close> along \<open>v\<close>.
\<close>

definition rectangle :: "DPoint \<Rightarrow> DPoint \<Rightarrow> real \<Rightarrow> real \<Rightarrow> DPoint list" where
  "rectangle inward endpoint w len =
     (let v = unit_v (p_sub endpoint inward); u = R270 v
      in [p_add_v endpoint (v_scale u w),
          p_add_v endpoint (v_add (v_scale u w) (v_scale v len)),
          p_add_v endpoint (v_add (v_scale u (- w)) (v_scale v len)),
          p_add_v endpoint (v_scale u (- w))])"

definition cap_polygon :: "waveguide \<Rightarrow> DPoint \<Rightarrow> DPoint \<Rightarrow> real \<Rightarrow> cmd" where
  "cap_polygon elem inward endpoint term_len =
     InsertPolygon base_metal_gap_wo_grid
       (rectangle inward endpoint (elem_a elem / 2 + elem_b elem) term_len)"

definition keepout_polygon :: "waveguide \<Rightarrow> DPoint \<Rightarrow> DPoint \<Rightarrow> real \<Rightarrow> cmd" where
  "keepout_polygon elem inward endpoint term_len =
     InsertPolygon ground_grid_avoidance
       (rectangle inward endpoint (elem_a elem / 2 + elem_b elem + elem_margin elem)
          (term_len + elem_margin elem))"

definition termination_cmds :: "waveguide \<Rightarrow> DPoint \<Rightarrow> DPoint \<Rightarrow> real \<Rightarrow> cmd list" where
  "termination_cmds elem inward endpoint term_len =
     (if term_len > 0 then [cap_polygon elem inward endpoint term_len] else [])
     @ [keepout_polygon elem inward endpoint term_len]"

text \<open>The kinds of command, to select them from a cell.\<close>

fun is_straight :: "cmd \<Rightarrow> bool" where
  "is_straight (InsertCell (WaveguideCoplanarStraight l) t) = True"
| "is_straight c = False"

fun is_curved :: "cmd \<Rightarrow> bool" where
  "is_curved (InsertCell (WaveguideCoplanarCurved al k) t) = True"
| "is_curved c = False"

fun is_polygon :: "cmd \<Rightarrow> bool" where
  "is_polygon (InsertPolygon ly ps) = True"
| "is_polygon c = False"

definition straight_cells :: "cmd list \<Rightarrow> cmd list" where
  "straight_cells cell = filter is_straight cell"

definition curved_cells :: "cmd list \<Rightarrow> cmd list" where
  "curved_cells cell = filter is_curved cell"

definition polygons :: "cmd list \<Rightarrow> cmd list" where
  "polygons cell = filter is_polygon cell"

text \<open>
  What the specification's steps 1 to 5 emit for an element, in order: the start
  termination and port, the pieces of every interior vertex, the end termination and port,
  and the final straight run.
\<close>

definition synthesized :: "waveguide \<Rightarrow> cmd list" where
  "synthesized elem =
     (let points = path elem; n = length points
      in termination_cmds elem (points ! 1) (points ! 0) (term1 elem)
         @ AddPort ''a'' (points ! 0) (p_sub (points ! 0) (points ! 1))
         # concat (map (corner_pieces elem points) [0 ..< n - 2])
         @ termination_cmds elem (points ! (n - 2)) (last points) (term2 elem)
         @ [AddPort ''b'' (last points) (p_sub (last points) (points ! (n - 2))),
            final_piece elem points])"

text \<open>
  The paths on which the synthesizer returns (lemma \<open>produce_waveguide_runs\<close>): two
  points or more, no two consecutive points equal and no interior vertex with
  \<open>half = 0\<close> (a turn \<open>alpha2 - alpha1\<close> of \<open>\<pi>\<close>).
\<close>

definition well_formed :: "DPoint list \<Rightarrow> bool" where
  "well_formed points \<longleftrightarrow>
     2 \<le> length points
     \<and> (\<forall>i < length points - 1. points ! i \<noteq> points ! (i + 1))
     \<and> (\<forall>i < length points - 2.
           half (points ! i) (points ! (i + 1)) (points ! (i + 2)) \<noteq> 0)"

text \<open>
  Two elements used as concrete inputs: the specification's scenario with one right-angle
  corner, and a path of three collinear points.
\<close>

definition corner_example :: waveguide where
  "corner_example =
     \<lparr>path = [DPoint 0 0, DPoint 100 0, DPoint 100 100], term1 = 0, term2 = 0,
      corner_safety_overlap = 1 / 1000, elem_a = 10, elem_b = 6, elem_margin = 5,
      elem_r = 30, elem_n = 64\<rparr>"

definition collinear_example :: waveguide where
  "collinear_example =
     \<lparr>path = [DPoint 0 0, DPoint 100 0, DPoint 200 0], term1 = 0, term2 = 0,
      corner_safety_overlap = 1 / 1000, elem_a = 10, elem_b = 6, elem_margin = 5,
      elem_r = 30, elem_n = 64\<rparr>"

section \<open>Properties of the geometry primitives\<close>

lemma distance_eq_0_iff: "distance p q = 0 \<longleftrightarrow> p = q"
proof -
  have "(px p - px q)\<^sup>2 + (py p - py q)\<^sup>2 = 0 \<longleftrightarrow> px p = px q \<and> py p = py q"
    by simp
  then show ?thesis
    by (cases p; cases q) (simp add: distance_def)
qed

lemma div_tan_cot:
  "div_tan x t = (if t = 0 then Inl ZeroDivisionError else Inr (x * cos t / sin t))"
  by (simp add: div_tan_def tan_def)

lemma div_sin_zero: "t \<noteq> 0 \<Longrightarrow> div_sin 0 t = Inr 0"
  by (simp add: div_sin_def)

lemma div_tan_zero: "t \<noteq> 0 \<Longrightarrow> div_tan 0 t = Inr 0"
  by (simp add: div_tan_def)

text \<open>
  A vector is its length times the direction of its \<open>atan2\<close> angle, so the cross product
  of two vectors is the product of the lengths times the sine of the turn: it is 0 where
  the sine or the cosine of \<open>half\<close> is.
\<close>

lemma sqrt_sum_factor:
  assumes "x \<noteq> 0"
  shows "sqrt (x\<^sup>2 + y\<^sup>2) = \<bar>x\<bar> * sqrt (1 + (y / x)\<^sup>2)"
proof -
  have "x\<^sup>2 + y\<^sup>2 = x\<^sup>2 * (1 + (y / x)\<^sup>2)"
    using assms by (simp add: field_simps power2_eq_square)
  then show ?thesis
    by (simp add: real_sqrt_mult)
qed

lemma polar_arctan:
  assumes "x \<noteq> 0"
  shows "\<bar>x\<bar> * sqrt (1 + (y / x)\<^sup>2) * cos (arctan (y / x)) = \<bar>x\<bar>"
    and "\<bar>x\<bar> * sqrt (1 + (y / x)\<^sup>2) * sin (arctan (y / x)) = \<bar>x\<bar> * (y / x)"
proof -
  have pos: "sqrt (1 + (y / x)\<^sup>2) \<noteq> 0"
    by (metis add_nonneg_eq_0_iff real_sqrt_eq_zero_cancel_iff zero_le_power2 zero_neq_one zero_le_one)
  show "\<bar>x\<bar> * sqrt (1 + (y / x)\<^sup>2) * cos (arctan (y / x)) = \<bar>x\<bar>"
    using pos by (simp add: cos_arctan)
  show "\<bar>x\<bar> * sqrt (1 + (y / x)\<^sup>2) * sin (arctan (y / x)) = \<bar>x\<bar> * (y / x)"
    using pos by (simp add: sin_arctan)
qed

lemma polar_atan2:
  "sqrt (x\<^sup>2 + y\<^sup>2) * cos (atan2 y x) = x"
  "sqrt (x\<^sup>2 + y\<^sup>2) * sin (atan2 y x) = y"
proof -
  consider "0 < x" | "x < 0" | "x = 0" by linarith
  then have "sqrt (x\<^sup>2 + y\<^sup>2) * cos (atan2 y x) = x
           \<and> sqrt (x\<^sup>2 + y\<^sup>2) * sin (atan2 y x) = y"
  proof cases
    case 1
    then have x: "x \<noteq> 0" "\<bar>x\<bar> = x" by simp_all
    show ?thesis
      using polar_arctan [OF x(1), of y] 1
      by (simp add: atan2_def sqrt_sum_factor [OF x(1)] x(2))
  next
    case 2
    then have x: "x \<noteq> 0" "\<bar>x\<bar> = - x" by simp_all
    show ?thesis
      using polar_arctan [OF x(1), of y] 2
      by (simp add: atan2_def sqrt_sum_factor [OF x(1)] x(2))
  next
    case 3
    then show ?thesis
      by (simp add: atan2_def)
  qed
  then show "sqrt (x\<^sup>2 + y\<^sup>2) * cos (atan2 y x) = x"
    and "sqrt (x\<^sup>2 + y\<^sup>2) * sin (atan2 y x) = y"
    by simp_all
qed

lemma cross_product_sin:
  "vx u * vy v - vy u * vx v
     = v_length u * v_length v * sin (atan2 (vy v) (vx v) - atan2 (vy u) (vx u))"
proof -
  let ?a = "atan2 (vy u) (vx u)" and ?b = "atan2 (vy v) (vx v)"
  have u: "vx u = v_length u * cos ?a" "vy u = v_length u * sin ?a"
    and v: "vx v = v_length v * cos ?b" "vy v = v_length v * sin ?b"
    by (simp_all add: v_length_def polar_atan2)
  have "vx u * vy v - vy u * vx v
          = v_length u * v_length v * (sin ?b * cos ?a - cos ?b * sin ?a)"
    by (subst u(1), subst v(2), subst u(2), subst v(1)) (simp add: algebra_simps)
  then show ?thesis by (simp add: sin_diff)
qed

lemma side_zero:
  assumes "sin (half p1 p2 p3) = 0 \<or> cos (half p1 p2 p3) = 0"
  shows "side p1 p2 p3 = 0"
proof -
  have "turn p1 p2 p3 = pi - 2 * half p1 p2 p3"
    by (simp add: half_def field_simps)
  then have "sin (turn p1 p2 p3) = 2 * sin (half p1 p2 p3) * cos (half p1 p2 p3)"
    by (simp add: sin_double)
  with assms have "sin (turn p1 p2 p3) = 0" by auto
  then show ?thesis
    unfolding side_def vprod_sign_def cross_product_sin
    by (simp add: turn_def heading_def p_sub_def)
qed

section \<open>Properties of the continuity verifier\<close>

lemma find_loop_iff:
  "find_loop endpoints tolerance i point js \<longleftrightarrow>
     (\<exists>j \<in> set js. j \<noteq> i \<and>
        (distance point (fst (endpoints ! j)) < tolerance
         \<or> distance point (snd (endpoints ! j)) < tolerance))"
  by (induction js) auto

lemma find_loop_matched:
  "find_loop endpoints tolerance i point [0 ..< length endpoints]
     = matched endpoints tolerance i point"
  by (auto simp: find_loop_iff matched_def)

lemma find_connected_point_eq:
  "find_connected_point endpoints tolerance i point n
     = n + (if matched endpoints tolerance i point then 0 else 1)"
  by (simp add: find_connected_point_def find_loop_matched)

lemma segment_loop_eq:
  "segment_loop endpoints tolerance is n \<longleftrightarrow>
     n + (\<Sum>i \<leftarrow> is. unmatched_of endpoints tolerance i) \<le> 2 \<or> is = [] "
proof (induction "is" arbitrary: n)
  case Nil
  then show ?case by simp
next
  case (Cons i "is")
  let ?n1 = "n + unmatched_of endpoints tolerance i"
  have step: "(if distance (fst (endpoints ! i)) (snd (endpoints ! i)) \<noteq> 0
         then find_connected_point endpoints tolerance i (snd (endpoints ! i))
                (find_connected_point endpoints tolerance i (fst (endpoints ! i)) n)
         else n) = ?n1"
    by (simp add: find_connected_point_eq unmatched_of_def distance_eq_0_iff)
  have "segment_loop endpoints tolerance (i # is) n
          = (if ?n1 > 2 then False else segment_loop endpoints tolerance is ?n1)"
    by (simp only: segment_loop.simps step Let_def)
  also have "\<dots> = (?n1 + (\<Sum>i \<leftarrow> is. unmatched_of endpoints tolerance i) \<le> 2)"
    using Cons.IH [of ?n1] by (cases "is") auto
  finally show ?case by (simp add: add.assoc)
qed

lemma distance_less_iff:
  "0 < t \<Longrightarrow> distance p q < t \<longleftrightarrow> (px p - px q)\<^sup>2 + (py p - py q)\<^sup>2 < t\<^sup>2"
proof -
  assume t: "0 < t"
  have "sqrt ((px p - px q)\<^sup>2 + (py p - py q)\<^sup>2) < sqrt (t\<^sup>2)
          \<longleftrightarrow> (px p - px q)\<^sup>2 + (py p - py q)\<^sup>2 < t\<^sup>2"
    by (rule real_sqrt_less_iff)
  with t show ?thesis by (simp add: distance_def)
qed

text \<open>
  Claim C5. \<^verbatim>\<open>is_continuous\<close> returns true if and only if the number of endpoints, over
  all pieces whose two endpoints differ, that have no endpoint of another piece below the
  tolerance, is at most 2. The early \<^verbatim>\<open>break\<close> changes nothing: the counter only grows.
  Pieces whose endpoints coincide add nothing to the count.
\<close>

theorem is_continuous_iff_total_unmatched:
  "is_continuous endpoints tolerance \<longleftrightarrow> total_unmatched endpoints tolerance \<le> 2"
  unfolding is_continuous_def total_unmatched_def
  by (subst segment_loop_eq) auto

theorem is_continuous_iff_total_unmatched_witness:
  "is_continuous [(DPoint 0 0, DPoint 2 0), (DPoint 5 5, DPoint 5 5), (DPoint 2 0, DPoint 4 0)] 1
   \<and> total_unmatched
        [(DPoint 0 0, DPoint 2 0), (DPoint 5 5, DPoint 5 5), (DPoint 2 0, DPoint 4 0)] 1 = 2"
proof -
  let ?e = "[(DPoint 0 0, DPoint 2 0), (DPoint 5 5, DPoint 5 5), (DPoint 2 0, DPoint 4 0)]"
  have up: "[0 ..< length ?e] = [0, 1, 2]"
    by (simp add: upt_rec)
  have m: "\<not> matched ?e 1 0 (DPoint 0 0)" "matched ?e 1 0 (DPoint 2 0)"
          "matched ?e 1 2 (DPoint 2 0)" "\<not> matched ?e 1 2 (DPoint 4 0)"
    unfolding find_loop_matched [symmetric] up
    by (simp_all add: distance_less_iff power2_eq_square)
  have t: "total_unmatched ?e 1 = 2"
    unfolding total_unmatched_def up
    by (simp add: unmatched_of_def m)
  with is_continuous_iff_total_unmatched [of ?e 1] show ?thesis
    by simp
qed

text \<open>
  Claim C9. The comparison of \<^verbatim>\<open>find_connected_point\<close> is strict: the point is counted as
  not connected exactly when every endpoint of every other piece is at a distance of at
  least the tolerance, so an endpoint at a distance equal to the tolerance is no match.
\<close>

theorem find_connected_point_strict:
  "find_connected_point endpoints tolerance i point n =
     (if \<forall>j < length endpoints. j \<noteq> i \<longrightarrow>
            tolerance \<le> distance point (fst (endpoints ! j))
          \<and> tolerance \<le> distance point (snd (endpoints ! j))
      then n + 1 else n)"
  by (auto simp: find_connected_point_eq matched_def not_less)

theorem find_connected_point_strict_witness:
  "distance (DPoint 1 0) (DPoint 2 0) = 1
   \<and> find_connected_point [(DPoint 0 0, DPoint 1 0), (DPoint 2 0, DPoint 3 0)] 1 0 (DPoint 1 0) 0 = 1
   \<and> \<not> is_continuous [(DPoint 0 0, DPoint 1 0), (DPoint 2 0, DPoint 3 0)] 1"
proof -
  let ?e = "[(DPoint 0 0, DPoint 1 0), (DPoint 2 0, DPoint 3 0)]"
  have d: "distance (DPoint 1 0) (DPoint 2 0) = 1"
          "distance (DPoint 1 0) (DPoint 3 0) = 2"
    by (simp_all add: distance_def)
  have all: "\<forall>j < length ?e. j \<noteq> 0 \<longrightarrow>
            1 \<le> distance (DPoint 1 0) (fst (?e ! j)) \<and> 1 \<le> distance (DPoint 1 0) (snd (?e ! j))"
    by (simp add: d less_Suc_eq)
  have f: "find_connected_point ?e 1 0 (DPoint 1 0) 0 = 1"
    using find_connected_point_strict [of ?e 1 0 "DPoint 1 0" 0] all by simp
  have up: "[0 ..< length ?e] = [0, 1]"
    by (simp add: upt_rec)
  have "\<not> is_continuous ?e 1"
    unfolding is_continuous_def up
    by (simp add: find_connected_point_def up distance_less_iff distance_eq_0_iff)
  with d f show ?thesis by simp
qed

section \<open>Properties of the synthesizer\<close>

lemma get_corner_data_eq:
  "get_corner_data p1 p2 p3 r =
     (if half p1 p2 p3 = 0 then Inl ZeroDivisionError
      else Inr (p_sub p2 p1, p_sub p3 p2, heading p1 p2, heading p2 p3,
                spec_corner_pos p1 p2 p3 r))"
  by (simp add: get_corner_data_def Let_def div_sin_def half_def turn_def heading_def
        spec_corner_pos_def side_def p_sub_def v_scale_def)

lemma v_length_p_sub: "v_length (p_sub q p) = distance p q"
  by (simp add: v_length_def p_sub_def distance_def power2_commute)

lemma produce_end_termination_eq:
  "produce_end_termination elem point_1 point_2 term_len cell =
     (if point_1 = point_2 then (Inl ZeroDivisionError, cell)
      else (Inr (), cell @ termination_cmds elem point_1 point_2 term_len))"
  by (simp add: produce_end_termination_def Let_def py_div_def distance_eq_0_iff
        termination_cmds_def cap_polygon_def keepout_polygon_def rectangle_def
        shift_start_def unit_v_def v_length_p_sub)

lemma next_cursor_eq:
  "to_p (p_sub_v (p_add_v p (v_scale (v_scale v2 (1 / L)) c)) (v_div (v_scale v2 ov) L))
   = p_sub_v (p_add_v p (v_scale (v_scale v2 (1 / L)) c)) (v_scale (v_scale v2 (1 / L)) ov)"
  by (simp add: to_p_def v_div_def v_scale_def p_sub_v_def p_add_v_def)

lemma corner_step_eq:
  "corner_step elem points i segment_last cell =
     (if half (points ! i) (points ! (i + 1)) (points ! (i + 2)) = 0
      then (Inl ZeroDivisionError, cell)
      else if points ! (i + 1) = points ! (i + 2)
      then (Inl ZeroDivisionError, cell @ [straight_at elem points i segment_last])
      else (Inr (spec_cursor elem points (Suc i)),
            cell @ straight_at elem points i segment_last #
              (if \<bar>turn (points ! i) (points ! (i + 1)) (points ! (i + 2))\<bar> \<ge> min_angle
               then [arc_piece elem points i] else [])))"
  by (simp add: corner_step_def get_corner_data_eq div_tan_def py_div_def Let_def
        v_length_p_sub distance_eq_0_iff next_cursor_eq unit_v_def straight_at_def arc_piece_def
        spec_cut_def side_def half_def turn_def heading_def)


lemma corner_step_success:
  assumes "corner_step elem points i segment_last cell = (Inr cur, cell1)"
  shows "cur = spec_cursor elem points (Suc i)"
    and "cell1 = cell @ straight_at elem points i segment_last #
              (if \<bar>turn (points ! i) (points ! (i + 1)) (points ! (i + 2))\<bar> \<ge> min_angle
               then [arc_piece elem points i] else [])"
  using assms unfolding corner_step_eq by (auto split: if_splits)

lemma corner_loop_success:
  "corner_loop elem points [k ..< m] (spec_cursor elem points k) cell = (Inr cur, cell1)
   \<Longrightarrow> k \<le> m
   \<Longrightarrow> cur = spec_cursor elem points m
       \<and> cell1 = cell @ concat (map (corner_pieces elem points) [k ..< m])"
proof (induction "m - k" arbitrary: k cell)
  case 0
  then show ?case by simp
next
  case (Suc d)
  then have km: "k < m" and up: "[k ..< m] = k # [Suc k ..< m]"
    by (auto simp: upt_conv_Cons)
  obtain res cell2 where
    step: "corner_step elem points k (spec_cursor elem points k) cell = (res, cell2)"
    by (cases "corner_step elem points k (spec_cursor elem points k) cell")
  from Suc.prems(1) step obtain cur2 where res: "res = Inr cur2"
    and rest: "corner_loop elem points [Suc k ..< m] cur2 cell2 = (Inr cur, cell1)"
    unfolding up by (cases res) auto
  from corner_step_success [OF step [unfolded res]]
  have cur2: "cur2 = spec_cursor elem points (Suc k)"
    and cell2: "cell2 = cell @ corner_pieces elem points k"
    by (simp_all add: corner_pieces_def straight_piece_def)
  have "d = m - Suc k" using Suc.hyps(2) by simp
  from Suc.hyps(1) [OF this rest [unfolded cur2]] km
  show ?case by (simp add: up cell2)
qed

lemma py_index_0: "py_index xs 0 = (if xs = [] then Inl IndexError else Inr (xs ! 0))"
  by (simp add: py_index_def Let_def)

lemma py_index_1: "py_index xs 1 = (if length xs < 2 then Inl IndexError else Inr (xs ! 1))"
  by (auto simp: py_index_def Let_def)

lemma last_segment_eq:
  "last_segment elem points (spec_cursor elem points (length points - 2)) cell =
     (if points ! (length points - 2) = last points then (Inl ZeroDivisionError, cell)
      else (Inr (),
            cell @ termination_cmds elem (points ! (length points - 2)) (last points) (term2 elem)
              @ [AddPort ''b'' (last points) (p_sub (last points) (points ! (length points - 2))),
                 final_piece elem points]))"
  by (simp add: last_segment_def produce_end_termination_eq Let_def final_piece_def
        heading_def)

lemma produce_waveguide_success:
  assumes "produce_waveguide elem cell0 = (Inr (), cell)"
  shows "2 \<le> length (path elem)" and "cell = cell0 @ synthesized elem"
proof -
  let ?ps = "path elem"
  show len: "2 \<le> length ?ps"
    using assms by (auto simp: produce_waveguide_def Let_def py_index_1 split: if_splits)
  then have i1: "py_index ?ps 1 = Inr (?ps ! 1)" and i0: "py_index ?ps 0 = Inr (?ps ! 0)"
    by (auto simp: py_index_1 py_index_0)
  let ?c2 = "cell0 @ termination_cmds elem (?ps ! 1) (?ps ! 0) (term1 elem)
               @ [AddPort ''a'' (?ps ! 0) (p_sub (?ps ! 0) (?ps ! 1))]"
  from assms have ne: "?ps ! 1 \<noteq> ?ps ! 0"
    by (auto simp: produce_waveguide_def Let_def i0 i1 produce_end_termination_eq
          split: if_splits)
  obtain res cell3 where
    loop: "corner_loop elem ?ps [0 ..< length ?ps - 2] (spec_cursor elem ?ps 0) ?c2 = (res, cell3)"
    by (cases "corner_loop elem ?ps [0 ..< length ?ps - 2] (spec_cursor elem ?ps 0) ?c2")
  from assms ne loop obtain cur where res: "res = Inr cur"
    and fin: "last_segment elem ?ps cur cell3 = (Inr (), cell)"
    by (cases res)
       (auto simp: produce_waveguide_def Let_def i0 i1 produce_end_termination_eq)
  from corner_loop_success [OF loop [unfolded res]]
  have cur: "cur = spec_cursor elem ?ps (length ?ps - 2)"
    and cell3: "cell3 = ?c2 @ concat (map (corner_pieces elem ?ps) [0 ..< length ?ps - 2])"
    by simp_all
  from fin [unfolded cur last_segment_eq]
  show "cell = cell0 @ synthesized elem"
    by (simp add: cell3 synthesized_def Let_def split: if_splits)
qed

lemma corner_loop_runs:
  "\<forall>i. k \<le> i \<and> i < m \<longrightarrow>
       half (points ! i) (points ! (i + 1)) (points ! (i + 2)) \<noteq> 0
     \<and> points ! (i + 1) \<noteq> points ! (i + 2)
   \<Longrightarrow> k \<le> m
   \<Longrightarrow> corner_loop elem points [k ..< m] (spec_cursor elem points k) cell
       = (Inr (spec_cursor elem points m),
          cell @ concat (map (corner_pieces elem points) [k ..< m]))"
proof (induction "m - k" arbitrary: k cell)
  case 0
  then show ?case by simp
next
  case (Suc d)
  then have km: "k < m" and up: "[k ..< m] = k # [Suc k ..< m]"
    by (auto simp: upt_conv_Cons)
  from Suc.prems(1) km
  have ok: "half (points ! k) (points ! (k + 1)) (points ! (k + 2)) \<noteq> 0"
           "points ! (k + 1) \<noteq> points ! (k + 2)"
    by auto
  have step: "corner_step elem points k (spec_cursor elem points k) cell
                = (Inr (spec_cursor elem points (Suc k)), cell @ corner_pieces elem points k)"
    using ok by (simp add: corner_step_eq corner_pieces_def straight_piece_def)
  have d: "d = m - Suc k" using Suc.hyps(2) by simp
  have rest: "\<forall>i. Suc k \<le> i \<and> i < m \<longrightarrow>
       half (points ! i) (points ! (i + 1)) (points ! (i + 2)) \<noteq> 0
     \<and> points ! (i + 1) \<noteq> points ! (i + 2)"
    using Suc.prems(1) by auto
  from Suc.hyps(1) [OF d rest] km
  show ?case by (simp add: up step)
qed

lemma nel_aux:
  assumes len: "2 \<le> length ps"
    and adj: "\<And>i. i < length ps - 1 \<Longrightarrow> ps ! i \<noteq> ps ! (i + 1)"
  shows "ps ! (length ps - 2) \<noteq> last ps"
proof -
  from len have "ps \<noteq> []" by auto
  then have lastn: "last ps = ps ! (length ps - 1)"
    by (rule last_conv_nth)
  have "length ps - 2 < length ps - 1" using len by arith
  from adj [OF this] have "ps ! (length ps - 2) \<noteq> ps ! (length ps - 2 + 1)" .
  moreover have "length ps - 2 + 1 = length ps - 1" using len by arith
  ultimately show ?thesis by (simp add: lastn)
qed


lemma produce_waveguide_runs:
  assumes "well_formed (path elem)"
  shows "produce_waveguide elem cell0 = (Inr (), cell0 @ synthesized elem)"
proof -
  let ?ps = "path elem"
  let ?n = "length ?ps"
  from assms have len: "2 \<le> ?n"
    and adj: "\<And>i. i < ?n - 1 \<Longrightarrow> ?ps ! i \<noteq> ?ps ! (i + 1)"
    and rev: "\<And>i. i < ?n - 2 \<Longrightarrow>
                half (?ps ! i) (?ps ! (i + 1)) (?ps ! (i + 2)) \<noteq> 0"
    by (auto simp: well_formed_def)
  from len have i1: "py_index ?ps 1 = Inr (?ps ! 1)" and i0: "py_index ?ps 0 = Inr (?ps ! 0)"
    by (auto simp: py_index_1 py_index_0)
  from adj [of 0] len have ne0: "?ps ! 1 \<noteq> ?ps ! 0" by auto
  have nel: "?ps ! (?n - 2) \<noteq> last ?ps"
    using len adj by (rule nel_aux)
  have cond: "\<forall>i. 0 \<le> i \<and> i < ?n - 2 \<longrightarrow>
       half (?ps ! i) (?ps ! (i + 1)) (?ps ! (i + 2)) \<noteq> 0
     \<and> ?ps ! (i + 1) \<noteq> ?ps ! (i + 2)"
  proof (intro allI impI conjI)
    fix i assume i: "0 \<le> i \<and> i < ?n - 2"
    then show "half (?ps ! i) (?ps ! (i + 1)) (?ps ! (i + 2)) \<noteq> 0"
      using rev by blast
    from i have "i + 1 < ?n - 1" by arith
    from adj [OF this] show "?ps ! (i + 1) \<noteq> ?ps ! (i + 2)"
      by (simp add: add.commute)
  qed
  have loop: "corner_loop elem ?ps [0 ..< ?n - 2] (spec_cursor elem ?ps 0) cell
       = (Inr (spec_cursor elem ?ps (?n - 2)),
          cell @ concat (map (corner_pieces elem ?ps) [0 ..< ?n - 2]))" for cell
    by (rule corner_loop_runs [OF cond]) simp
  have start: "produce_end_termination elem (?ps ! 1) (?ps ! 0) (term1 elem) cell0
          = (Inr (), cell0 @ termination_cmds elem (?ps ! 1) (?ps ! 0) (term1 elem))"
    using ne0 by (simp add: produce_end_termination_eq)
  have fin: "last_segment elem ?ps (spec_cursor elem ?ps (?n - 2)) cell
          = (Inr (),
            cell @ termination_cmds elem (?ps ! (?n - 2)) (last ?ps) (term2 elem)
              @ [AddPort ''b'' (last ?ps) (p_sub (last ?ps) (?ps ! (?n - 2))),
                 final_piece elem ?ps])" for cell
    using nel by (simp add: last_segment_eq)
  have "produce_waveguide elem cell0
          = last_segment elem ?ps (spec_cursor elem ?ps (?n - 2))
              ((cell0 @ termination_cmds elem (?ps ! 1) (?ps ! 0) (term1 elem)
                 @ [AddPort ''a'' (?ps ! 0) (p_sub (?ps ! 0) (?ps ! 1))])
               @ concat (map (corner_pieces elem ?ps) [0 ..< ?n - 2]))"
    unfolding produce_waveguide_def Let_def i0 i1
    by (simp only: start sum.case prod.case loop [unfolded spec_cursor.simps(1)] append_assoc)
  then show ?thesis
    by (simp only: fin synthesized_def Let_def append_assoc append_Cons append_Nil)
qed

subsection \<open>The two concrete inputs\<close>

lemma heading_east: "0 < d \<Longrightarrow> heading (DPoint x y) (DPoint (x + d) y) = 0"
  by (simp add: heading_def atan2_def)

lemma heading_north: "0 < d \<Longrightarrow> heading (DPoint x y) (DPoint x (y + d)) = pi / 2"
  by (simp add: heading_def atan2_def)

lemma corner_example_headings:
  "heading (DPoint 0 0) (DPoint 100 0) = 0"
  "heading (DPoint 100 0) (DPoint 100 100) = pi / 2"
  using heading_east [of 100 0 0] heading_north [of 100 100 0] by simp_all

lemma corner_example_half: "half (DPoint 0 0) (DPoint 100 0) (DPoint 100 100) = pi / 4"
  by (simp add: half_def turn_def corner_example_headings)

lemma corner_example_well_formed: "well_formed (path corner_example)"
  by (auto simp: well_formed_def corner_example_def less_Suc_eq numeral_2_eq_2
        corner_example_half)

lemma collinear_example_headings:
  "heading (DPoint 0 0) (DPoint 100 0) = 0"
  "heading (DPoint 100 0) (DPoint 200 0) = 0"
  using heading_east [of 100 0 0] heading_east [of 100 100 0] by simp_all

lemma collinear_example_half: "half (DPoint 0 0) (DPoint 100 0) (DPoint 200 0) = pi / 2"
  by (simp add: half_def turn_def collinear_example_headings)

lemma collinear_example_well_formed: "well_formed (path collinear_example)"
  by (auto simp: well_formed_def collinear_example_def less_Suc_eq numeral_2_eq_2
        collinear_example_half)

subsection \<open>Selecting the cells\<close>

lemma straight_cells_append [simp]:
  "straight_cells (xs @ ys) = straight_cells xs @ straight_cells ys"
  by (simp add: straight_cells_def)

lemma straight_cells_Nil [simp]: "straight_cells [] = []"
  by (simp add: straight_cells_def)

lemma straight_cells_Cons [simp]:
  "straight_cells (c # cs) = (if is_straight c then c # straight_cells cs else straight_cells cs)"
  by (simp add: straight_cells_def)

lemma straight_cells_termination [simp]:
  "straight_cells (termination_cmds elem p q t) = []"
  by (simp add: termination_cmds_def cap_polygon_def keepout_polygon_def)

lemma straight_cells_corner_pieces:
  "straight_cells (corner_pieces elem points i) = [straight_piece elem points i]"
  by (simp add: corner_pieces_def straight_piece_def straight_at_def arc_piece_def Let_def)

lemma straight_cells_concat:
  "straight_cells (concat (map (corner_pieces elem points) js))
     = map (straight_piece elem points) js"
  by (induction js) (simp_all add: straight_cells_corner_pieces)

lemma straight_cells_synthesized:
  "straight_cells (synthesized elem)
     = map (straight_piece elem (path elem)) [0 ..< length (path elem) - 2]
       @ [final_piece elem (path elem)]"
  by (simp add: synthesized_def straight_cells_concat final_piece_def Let_def)

text \<open>
  Claim C8. A path with fewer than 2 points is rejected before anything is emitted:
  reading \<^verbatim>\<open>points[1]\<close> raises \<^verbatim>\<open>IndexError\<close> and the cell is as it was.
\<close>

theorem short_path_rejected:
  "length (path elem) < 2 \<Longrightarrow> produce_waveguide elem cell = (Inl IndexError, cell)"
  by (simp add: produce_waveguide_def Let_def py_index_1)

theorem short_path_rejected_witness:
  "length (path (corner_example\<lparr>path := [DPoint 0 0]\<rparr>)) < 2
   \<and> produce_waveguide (corner_example\<lparr>path := [DPoint 0 0]\<rparr>) [] = (Inl IndexError, [])"
  using short_path_rejected [of "corner_example\<lparr>path := [DPoint 0 0]\<rparr>" "[]"]
  by simp

text \<open>
  Claim C10. When the synthesizer completes on a path of \<open>n \<ge> 2\<close> points, it has
  inserted exactly \<open>n - 1\<close> straight cells, whatever the turns at the interior vertices.
\<close>

theorem straight_cell_count:
  "2 \<le> length (path elem) \<Longrightarrow> produce_waveguide elem cell0 = (Inr (), cell)
   \<Longrightarrow> length (straight_cells cell) = length (straight_cells cell0) + (length (path elem) - 1)"
  by (auto dest!: produce_waveguide_success(2) simp: straight_cells_synthesized)

theorem straight_cell_count_witness:
  "2 \<le> length (path collinear_example)
   \<and> produce_waveguide collinear_example [] = (Inr (), synthesized collinear_example)
   \<and> length (straight_cells (synthesized collinear_example)) = 2"
proof -
  have run: "produce_waveguide collinear_example [] = (Inr (), synthesized collinear_example)"
    using produce_waveguide_runs [OF collinear_example_well_formed, of "[]"] by simp
  have len: "2 \<le> length (path collinear_example)"
    by (simp add: collinear_example_def)
  from straight_cell_count [OF len run] show ?thesis
    using run by (simp add: collinear_example_def)
qed

subsection \<open>The corner solver\<close>

lemma cos_sin_135: "cos (3 * pi / 4) = - (sqrt 2 / 2)" "sin (3 * pi / 4) = sqrt 2 / 2"
proof -
  have e: "3 * pi / 4 = pi / 2 + pi / 4" by simp
  show "cos (3 * pi / 4) = - (sqrt 2 / 2)"
    unfolding e cos_add by (simp add: sin_45)
  show "sin (3 * pi / 4) = sqrt 2 / 2"
    unfolding e sin_add by (simp add: cos_45)
qed

lemma corner_example_corner_pos:
  "spec_corner_pos (DPoint 0 0) (DPoint 100 0) (DPoint 100 100) 30 = DPoint 70 30"
proof -
  have s: "side (DPoint 0 0) (DPoint 100 0) (DPoint 100 100) = 1"
    by (simp add: side_def vprod_sign_def p_sub_def)
  have a: "pi / 4 + pi / 2 = 3 * pi / 4" by simp
  show ?thesis
    by (simp add: spec_corner_pos_def Let_def corner_example_half corner_example_headings
          s a cos_sin_135 sin_45 p_add_v_def v_scale_def)
qed

text \<open>
  Claim C2, as amended. For points with \<open>p1 \<noteq> p2\<close> and \<open>p2 \<noteq> p3\<close> whose headings do
  not differ by \<open>alpha2 - alpha1 = \<pi>\<close>, and any radius, \<^verbatim>\<open>get_corner_data\<close> returns
  \<open>v1 = p2 - p1\<close>, \<open>v2 = p3 - p2\<close>, \<open>alpha1 = atan2(v1.y, v1.x)\<close>,
  \<open>alpha2 = atan2(v2.y, v2.x)\<close> and
  \<open>corner_pos = p2 + (cos alphacorner, sin alphacorner) * distcorner\<close>, with
  \<open>alphacorner = (\<pi> - (alpha2 - alpha1)) / 2 + alpha2\<close> and
  \<open>distcorner = vprod_sign(v1, v2) * r / sin((\<pi> - (alpha2 - alpha1)) / 2)\<close>.
\<close>

theorem get_corner_data_result:
  "p1 \<noteq> p2 \<Longrightarrow> p2 \<noteq> p3
   \<Longrightarrow> atan2 (vy (p_sub p3 p2)) (vx (p_sub p3 p2))
         - atan2 (vy (p_sub p2 p1)) (vx (p_sub p2 p1)) \<noteq> pi
   \<Longrightarrow> get_corner_data p1 p2 p3 r =
     (let v1 = p_sub p2 p1;
          v2 = p_sub p3 p2;
          alpha1 = atan2 (vy v1) (vx v1);
          alpha2 = atan2 (vy v2) (vx v2);
          alphacorner = (pi - (alpha2 - alpha1)) / 2 + alpha2;
          distcorner = vprod_sign v1 v2 * r / sin ((pi - (alpha2 - alpha1)) / 2)
      in Inr (v1, v2, alpha1, alpha2,
              p_add_v p2 (v_scale (DVector (cos alphacorner) (sin alphacorner)) distcorner)))"
  by (simp add: get_corner_data_def Let_def div_sin_def v_scale_def)

theorem get_corner_data_result_witness:
  "DPoint 0 0 \<noteq> DPoint 100 0 \<and> DPoint 100 0 \<noteq> DPoint 100 100
   \<and> atan2 (vy (p_sub (DPoint 100 100) (DPoint 100 0))) (vx (p_sub (DPoint 100 100) (DPoint 100 0)))
       - atan2 (vy (p_sub (DPoint 100 0) (DPoint 0 0))) (vx (p_sub (DPoint 100 0) (DPoint 0 0)))
       \<noteq> pi
   \<and> get_corner_data (DPoint 0 0) (DPoint 100 0) (DPoint 100 100) 30
       = Inr (DVector 100 0, DVector 0 100, 0, pi / 2, DPoint 70 30)"
proof -
  have h: "atan2 0 100 = 0" "atan2 100 0 = pi / 2"
    by (simp_all add: atan2_def)
  have a: "pi / 4 + pi / 2 = 3 * pi / 4" by simp
  have d: "DPoint 0 0 \<noteq> DPoint 100 0" "DPoint 100 0 \<noteq> DPoint 100 100"
    by simp_all
  have t: "atan2 (vy (p_sub (DPoint 100 100) (DPoint 100 0)))
                 (vx (p_sub (DPoint 100 100) (DPoint 100 0)))
           - atan2 (vy (p_sub (DPoint 100 0) (DPoint 0 0)))
                   (vx (p_sub (DPoint 100 0) (DPoint 0 0))) \<noteq> pi"
    by (simp add: p_sub_def h)
  have "get_corner_data (DPoint 0 0) (DPoint 100 0) (DPoint 100 100) 30
       = Inr (DVector 100 0, DVector 0 100, 0, pi / 2, DPoint 70 30)"
    unfolding get_corner_data_result [OF d t]
    by (simp add: Let_def p_sub_def h a cos_sin_135 sin_45 vprod_sign_def p_add_v_def
          v_scale_def)
  with d t show ?thesis by simp
qed

text \<open>
  The claim as stated fails where the headings differ by \<open>\<pi>\<close>: the points are pairwise
  different, \<open>alpha1 = 0\<close>, \<open>alpha2 = \<pi>\<close>, the argument of the sine is 0 and the
  division raises.
\<close>

theorem get_corner_data_reversal:
  "DPoint 0 0 \<noteq> DPoint 1 0 \<and> DPoint 1 0 \<noteq> DPoint 0 0
   \<and> get_corner_data (DPoint 0 0) (DPoint 1 0) (DPoint 0 0) 30 = Inl ZeroDivisionError"
  by (simp add: get_corner_data_def Let_def div_sin_def p_sub_def atan2_def)

text \<open>
  At a turn of \<open>-\<pi>\<close> the code divides by the float sine of \<^verbatim>\<open>math.pi\<close> and returns:
  the dividend is 0, and the arc is placed at the corner point itself.
\<close>

lemma get_corner_data_opposite:
  assumes "turn p1 p2 p3 = - pi"
  shows "get_corner_data p1 p2 p3 r
           = Inr (p_sub p2 p1, p_sub p3 p2, heading p1 p2, heading p2 p3, p2)"
proof -
  from assms have h: "half p1 p2 p3 = pi"
    by (simp add: half_def)
  have z: "p_add_v p2 (v_scale w 0) = p2" for w
    by (cases p2) (simp add: p_add_v_def v_scale_def)
  show ?thesis
    by (simp add: get_corner_data_eq h spec_corner_pos_def Let_def z)
qed

lemma get_corner_data_turn_minus_pi:
  "get_corner_data (DPoint 0 0) (DPoint 0 1) (DPoint 0 0) 30
     = Inr (DVector 0 1, DVector 0 (- 1), pi / 2, - (pi / 2), DPoint 0 1)"
  "get_corner_data (DPoint 1 0) (DPoint 0 0) (DPoint 1 0) 30
     = Inr (DVector (- 1) 0, DVector 1 0, pi, 0, DPoint 0 0)"
  by (simp_all add: get_corner_data_def Let_def div_sin_def p_sub_def atan2_def
        vprod_sign_def p_add_v_def)

subsection \<open>Arcs\<close>

lemma curved_cells_Nil [simp]: "curved_cells [] = []"
  by (simp add: curved_cells_def)

lemma curved_cells_Cons [simp]:
  "curved_cells (c # cs) = (if is_curved c then c # curved_cells cs else curved_cells cs)"
  by (simp add: curved_cells_def)

lemma curved_cells_append [simp]:
  "curved_cells (xs @ ys) = curved_cells xs @ curved_cells ys"
  by (simp add: curved_cells_def)

lemma curved_cells_termination [simp]:
  "curved_cells (termination_cmds elem p q t) = []"
  by (simp add: termination_cmds_def cap_polygon_def keepout_polygon_def)

lemma curved_cells_corner_pieces:
  "curved_cells (corner_pieces elem points i) =
     (if min_angle \<le> \<bar>turn (points ! i) (points ! (i + 1)) (points ! (i + 2))\<bar>
      then [arc_piece elem points i] else [])"
  by (simp add: corner_pieces_def straight_piece_def straight_at_def arc_piece_def Let_def)

lemma curved_cells_concat:
  "curved_cells (concat (map (corner_pieces elem points) js))
     = map (arc_piece elem points)
         (filter (\<lambda>i. min_angle \<le> \<bar>turn (points ! i) (points ! (i + 1)) (points ! (i + 2))\<bar>) js)"
  by (induction js) (simp_all add: curved_cells_corner_pieces)

lemma curved_cells_synthesized:
  "curved_cells (synthesized elem)
     = map (arc_piece elem (path elem))
         (filter (\<lambda>i. min_angle \<le>
                    \<bar>turn (path elem ! i) (path elem ! (i + 1)) (path elem ! (i + 2))\<bar>)
            [0 ..< length (path elem) - 2])"
  by (simp add: synthesized_def curved_cells_concat final_piece_def Let_def)

text \<open>
  Claim C7. On a completed run the curved cells are, in order, those of the interior
  vertices whose turn \<open>alpha2 - alpha1\<close> has magnitude at least \<open>min_angle = 1e-5\<close>, and
  no others; the arc of vertex \<open>i\<close> has the turn as its angle and is placed at the corner
  solver's \<open>corner_pos\<close> with the rotation \<open>alpha1 / \<pi> * 180 - vprod_sign v1 v2 * 90\<close>
  degrees.
\<close>

theorem arcs_emitted:
  "produce_waveguide elem [] = (Inr (), cell) \<Longrightarrow>
   curved_cells cell =
     map (\<lambda>i. InsertCell
                (WaveguideCoplanarCurved
                   (heading (path elem ! (i + 1)) (path elem ! (i + 2))
                      - heading (path elem ! i) (path elem ! (i + 1)))
                   (elem_n elem))
                (DCplxTrans 1
                   (heading (path elem ! i) (path elem ! (i + 1)) / pi * 180
                      - vprod_sign (p_sub (path elem ! (i + 1)) (path elem ! i))
                          (p_sub (path elem ! (i + 2)) (path elem ! (i + 1))) * 90)
                   False
                   (to_v (spec_corner_pos (path elem ! i) (path elem ! (i + 1))
                            (path elem ! (i + 2)) (elem_r elem)))))
       (filter (\<lambda>i. min_angle \<le> \<bar>heading (path elem ! (i + 1)) (path elem ! (i + 2))
                                    - heading (path elem ! i) (path elem ! (i + 1))\<bar>)
          [0 ..< length (path elem) - 2])"
  by (auto dest!: produce_waveguide_success(2)
        simp: curved_cells_synthesized arc_piece_def turn_def side_def Let_def)

theorem arcs_emitted_witness:
  "produce_waveguide corner_example [] = (Inr (), synthesized corner_example)
   \<and> curved_cells (synthesized corner_example)
       = [InsertCell (WaveguideCoplanarCurved (pi / 2) 64)
            (DCplxTrans 1 (- 90) False (DVector 70 30))]"
proof -
  have run: "produce_waveguide corner_example [] = (Inr (), synthesized corner_example)"
    using produce_waveguide_runs [OF corner_example_well_formed, of "[]"] by simp
  have big: "min_angle \<le> \<bar>pi / 2\<bar>"
    using pi_ge_two by (simp add: min_angle_def)
  have s: "vprod_sign (DVector 100 0) (DVector 0 100) = 1"
    by (simp add: vprod_sign_def)
  from arcs_emitted [OF run] show ?thesis
    using run big
    by (simp add: corner_example_def corner_example_headings corner_example_corner_pos
          p_sub_def s to_v_def)
qed

subsection \<open>Straight pieces\<close>

lemma distance_horizontal: "distance (DPoint x1 y) (DPoint x2 y) = \<bar>x1 - x2\<bar>"
  by (simp add: distance_def)

lemma distance_vertical: "distance (DPoint x y1) (DPoint x y2) = \<bar>y1 - y2\<bar>"
  by (simp add: distance_def)

lemma v_length_axis: "v_length (DVector x 0) = \<bar>x\<bar>" "v_length (DVector 0 y) = \<bar>y\<bar>"
  by (simp_all add: v_length_def)

lemma straight_cells_nth:
  assumes "i < length (path elem) - 2"
  shows "straight_cells (synthesized elem) ! i = straight_piece elem (path elem) i"
  using assms by (simp add: straight_cells_synthesized nth_append)

lemma straight_cells_last:
  "straight_cells (synthesized elem) ! (length (path elem) - 2) = final_piece elem (path elem)"
  by (simp add: straight_cells_synthesized nth_append)

lemma next_straight_placed:
  assumes "i < length (path elem) - 2"
  shows "\<exists>l ang. straight_cells (synthesized elem) ! (Suc i)
           = InsertCell (WaveguideCoplanarStraight l)
               (DCplxTrans 1 ang False (to_v (spec_cursor elem (path elem) (Suc i))))"
proof (cases "Suc i < length (path elem) - 2")
  case True
  then show ?thesis
    by (simp add: straight_cells_nth straight_piece_def straight_at_def Let_def)
next
  case False
  with assms have "Suc i = length (path elem) - 2" by arith
  then show ?thesis
    using straight_cells_last [of elem] by (simp add: final_piece_def Let_def)
qed

text \<open>
  Claim C3. On a completed run, the straight cell of the interior vertex \<open>i\<close> (the
  \<open>i\<close>-th straight cell) has the length \<open>distance(cursor, points[i+1]) - cut +
  corner_safety_overlap\<close> with \<open>cut = vprod_sign(v1, v2) * r / tan((\<pi> - (alpha2 -
  alpha1)) / 2)\<close>, and is placed at the cursor with the heading
  \<open>atan2(points[i+1].y - cursor.y, points[i+1].x - cursor.x)\<close>, given in degrees. The
  cursor then moves to \<open>points[i+1] + unit(v2) * cut - corner_safety_overlap * unit(v2)\<close>:
  the next straight cell is placed there.
\<close>

theorem straight_segment_of_vertex:
  "produce_waveguide elem [] = (Inr (), cell) \<Longrightarrow> i < length (path elem) - 2 \<Longrightarrow>
   (let points = path elem;
        cursor = spec_cursor elem points i;
        v1 = p_sub (points ! (i + 1)) (points ! i);
        v2 = p_sub (points ! (i + 2)) (points ! (i + 1));
        alpha1 = atan2 (vy v1) (vx v1);
        alpha2 = atan2 (vy v2) (vx v2);
        cut_len = vprod_sign v1 v2 * elem_r elem / tan ((pi - (alpha2 - alpha1)) / 2);
        cursor2 = p_sub_v (p_add_v (points ! (i + 1)) (v_scale (unit_v v2) cut_len))
                    (v_scale (unit_v v2) (corner_safety_overlap elem))
    in straight_cells cell ! i
         = InsertCell
             (WaveguideCoplanarStraight
                (distance cursor (points ! (i + 1)) - cut_len + corner_safety_overlap elem))
             (DCplxTrans 1
                (180 / pi * atan2 (py (points ! (i + 1)) - py cursor)
                                  (px (points ! (i + 1)) - px cursor))
                False (to_v cursor))
       \<and> spec_cursor elem points (Suc i) = cursor2
       \<and> (\<exists>l ang. straight_cells cell ! (Suc i)
             = InsertCell (WaveguideCoplanarStraight l) (DCplxTrans 1 ang False (to_v cursor2))))"
proof -
  assume run: "produce_waveguide elem [] = (Inr (), cell)" and i: "i < length (path elem) - 2"
  from produce_waveguide_success(2) [OF run] have cell: "cell = synthesized elem" by simp
  have cur: "spec_cursor elem (path elem) (Suc i) =
      (let v2 = p_sub (path elem ! (i + 2)) (path elem ! (i + 1));
           c = spec_cut (path elem ! i) (path elem ! (i + 1)) (path elem ! (i + 2)) (elem_r elem)
       in p_sub_v (p_add_v (path elem ! (i + 1)) (v_scale (unit_v v2) c))
                  (v_scale (unit_v v2) (corner_safety_overlap elem)))"
    by simp
  from next_straight_placed [OF i] obtain l ang where
    nxt: "straight_cells (synthesized elem) ! (Suc i)
           = InsertCell (WaveguideCoplanarStraight l)
               (DCplxTrans 1 ang False (to_v (spec_cursor elem (path elem) (Suc i))))"
    by blast
  show ?thesis
    unfolding cell Let_def
    apply (intro conjI)
      apply (simp add: straight_cells_nth [OF i] straight_piece_def straight_at_def Let_def
        spec_cut_def side_def half_def turn_def heading_def p_sub_def)
     apply (simp add: cur Let_def spec_cut_def side_def half_def turn_def heading_def p_sub_def
        del: spec_cursor.simps)
    apply (rule exI [of _ l], rule exI [of _ ang])
    apply (simp add: nxt cur Let_def spec_cut_def side_def half_def turn_def heading_def
        p_sub_def del: spec_cursor.simps)
    done
qed

theorem straight_segment_of_vertex_witness:
  "produce_waveguide corner_example [] = (Inr (), synthesized corner_example)
   \<and> 0 < length (path corner_example) - 2
   \<and> straight_cells (synthesized corner_example) ! 0
       = InsertCell (WaveguideCoplanarStraight (100 - 30 + 1 / 1000))
           (DCplxTrans 1 0 False (DVector 0 0))
   \<and> spec_cursor corner_example (path corner_example) (Suc 0) = DPoint 100 (30 - 1 / 1000)"
proof -
  have run: "produce_waveguide corner_example [] = (Inr (), synthesized corner_example)"
    using produce_waveguide_runs [OF corner_example_well_formed, of "[]"] by simp
  have i: "0 < length (path corner_example) - 2"
    by (simp add: corner_example_def)
  have h: "atan2 0 100 = 0" "atan2 100 0 = pi / 2"
    by (simp_all add: atan2_def)
  have t: "(pi - pi / 2) / 2 = pi / 4" by simp
  have ps: "path corner_example = [DPoint 0 0, DPoint 100 0, DPoint 100 100]"
    "elem_r corner_example = 30" "corner_safety_overlap corner_example = 1 / 1000"
    "term1 corner_example = 0"
    by (simp_all add: corner_example_def)
  have c0: "spec_cursor corner_example [DPoint 0 0, DPoint 100 0, DPoint 100 100] 0 = DPoint 0 0"
    by (simp add: first_segment_start_def ps)
  from straight_segment_of_vertex [OF run i]
  have "straight_cells (synthesized corner_example) ! 0
       = InsertCell (WaveguideCoplanarStraight (100 - 30 + 1 / 1000))
           (DCplxTrans 1 0 False (DVector 0 0))
     \<and> spec_cursor corner_example (path corner_example) (Suc 0) = DPoint 100 (30 - 1 / 1000)"
    unfolding ps Let_def c0
    by (simp add: p_sub_def h t tan_45 vprod_sign_def distance_horizontal to_v_def unit_v_def
          v_length_axis v_scale_def p_add_v_def p_sub_v_def del: spec_cursor.simps)
  with run i show ?thesis by simp
qed

subsection \<open>Terminations\<close>

lemma polygons_Nil [simp]: "polygons [] = []"
  by (simp add: polygons_def)

lemma polygons_Cons [simp]:
  "polygons (c # cs) = (if is_polygon c then c # polygons cs else polygons cs)"
  by (simp add: polygons_def)

lemma polygons_append [simp]: "polygons (xs @ ys) = polygons xs @ polygons ys"
  by (simp add: polygons_def)

lemma polygons_termination [simp]:
  "polygons (termination_cmds elem p q t) = termination_cmds elem p q t"
  by (simp add: termination_cmds_def cap_polygon_def keepout_polygon_def)

lemma polygons_corner_pieces [simp]: "polygons (corner_pieces elem points i) = []"
  by (simp add: corner_pieces_def straight_piece_def straight_at_def arc_piece_def Let_def)

lemma polygons_concat [simp]:
  "polygons (concat (map (corner_pieces elem points) js)) = []"
  by (induction js) simp_all

lemma polygons_synthesized:
  "polygons (synthesized elem)
     = termination_cmds elem (path elem ! 1) (path elem ! 0) (term1 elem)
       @ termination_cmds elem (path elem ! (length (path elem) - 2)) (last (path elem))
           (term2 elem)"
  by (simp add: synthesized_def final_piece_def Let_def)

text \<open>
  Claim C6. For two different points, \<^verbatim>\<open>produce_end_termination\<close> inserts the cap
  rectangle of half-width \<open>a/2 + b\<close> and length \<open>term_len\<close> into the metal-gap layer exactly
  when \<open>term_len > 0\<close>, and in every case the keep-out rectangle of half-width
  \<open>a/2 + b + margin\<close> and length \<open>term_len + margin\<close> into the grid-avoidance layer. So a
  completed run with \<open>term1 = 0\<close> and \<open>term2 = 0\<close> has emitted two polygons, the keep-out
  rectangles at the two ends of the path, and no cap.
\<close>

theorem end_termination_polygons:
  "(point_1 \<noteq> point_2 \<longrightarrow>
      produce_end_termination elem point_1 point_2 term_len cell
        = (Inr (),
           cell
           @ (if term_len > 0
              then [InsertPolygon base_metal_gap_wo_grid
                      (rectangle point_1 point_2 (elem_a elem / 2 + elem_b elem) term_len)]
              else [])
           @ [InsertPolygon ground_grid_avoidance
                (rectangle point_1 point_2 (elem_a elem / 2 + elem_b elem + elem_margin elem)
                   (term_len + elem_margin elem))]))
   \<and> (term1 elem = 0 \<and> term2 elem = 0 \<and> produce_waveguide elem [] = (Inr (), cell2) \<longrightarrow>
      polygons cell2
        = [InsertPolygon ground_grid_avoidance
             (rectangle (path elem ! 1) (path elem ! 0)
                (elem_a elem / 2 + elem_b elem + elem_margin elem) (0 + elem_margin elem)),
           InsertPolygon ground_grid_avoidance
             (rectangle (path elem ! (length (path elem) - 2)) (last (path elem))
                (elem_a elem / 2 + elem_b elem + elem_margin elem) (0 + elem_margin elem))])"
proof (intro conjI impI)
  assume "point_1 \<noteq> point_2"
  then show "produce_end_termination elem point_1 point_2 term_len cell
        = (Inr (),
           cell
           @ (if term_len > 0
              then [InsertPolygon base_metal_gap_wo_grid
                      (rectangle point_1 point_2 (elem_a elem / 2 + elem_b elem) term_len)]
              else [])
           @ [InsertPolygon ground_grid_avoidance
                (rectangle point_1 point_2 (elem_a elem / 2 + elem_b elem + elem_margin elem)
                   (term_len + elem_margin elem))])"
    by (simp add: produce_end_termination_eq termination_cmds_def cap_polygon_def
          keepout_polygon_def)
next
  assume a: "term1 elem = 0 \<and> term2 elem = 0 \<and> produce_waveguide elem [] = (Inr (), cell2)"
  then have "cell2 = synthesized elem"
    using produce_waveguide_success(2) [of elem "[]" cell2] by simp
  with a show "polygons cell2
        = [InsertPolygon ground_grid_avoidance
             (rectangle (path elem ! 1) (path elem ! 0)
                (elem_a elem / 2 + elem_b elem + elem_margin elem) (0 + elem_margin elem)),
           InsertPolygon ground_grid_avoidance
             (rectangle (path elem ! (length (path elem) - 2)) (last (path elem))
                (elem_a elem / 2 + elem_b elem + elem_margin elem) (0 + elem_margin elem))]"
    by (simp add: polygons_synthesized termination_cmds_def keepout_polygon_def)
qed

theorem end_termination_polygons_witness:
  "DPoint 100 0 \<noteq> DPoint 0 0
   \<and> produce_end_termination corner_example (DPoint 100 0) (DPoint 0 0) 0 []
       = (Inr (), [InsertPolygon ground_grid_avoidance
                     [DPoint 0 16, DPoint (- 5) 16, DPoint (- 5) (- 16), DPoint 0 (- 16)]])
   \<and> term1 corner_example = 0 \<and> term2 corner_example = 0
   \<and> produce_waveguide corner_example [] = (Inr (), synthesized corner_example)
   \<and> polygons (synthesized corner_example)
       = [InsertPolygon ground_grid_avoidance
            [DPoint 0 16, DPoint (- 5) 16, DPoint (- 5) (- 16), DPoint 0 (- 16)],
          InsertPolygon ground_grid_avoidance
            [DPoint 116 100, DPoint 116 105, DPoint 84 105, DPoint 84 100]]"
proof -
  have run: "produce_waveguide corner_example [] = (Inr (), synthesized corner_example)"
    using produce_waveguide_runs [OF corner_example_well_formed, of "[]"] by simp
  have ne: "DPoint 100 0 \<noteq> DPoint 0 0" by simp
  have t: "term1 corner_example = 0 \<and> term2 corner_example = 0"
    by (simp add: corner_example_def)
  have r1: "rectangle (DPoint 100 0) (DPoint 0 0) 16 5
              = [DPoint 0 16, DPoint (- 5) 16, DPoint (- 5) (- 16), DPoint 0 (- 16)]"
    by (simp add: rectangle_def Let_def unit_v_def p_sub_def v_length_axis v_scale_def
          R270_def v_add_def p_add_v_def)
  have r2: "rectangle (DPoint 100 0) (DPoint 100 100) 16 5
              = [DPoint 116 100, DPoint 116 105, DPoint 84 105, DPoint 84 100]"
    by (simp add: rectangle_def Let_def unit_v_def p_sub_def v_length_axis v_scale_def
          R270_def v_add_def p_add_v_def)
  note inst = end_termination_polygons
    [of "DPoint 100 0" "DPoint 0 0" corner_example 0 "[]" "synthesized corner_example"]
  from inst ne have "produce_end_termination corner_example (DPoint 100 0) (DPoint 0 0) 0 []
       = (Inr (), [InsertPolygon ground_grid_avoidance
                     [DPoint 0 16, DPoint (- 5) 16, DPoint (- 5) (- 16), DPoint 0 (- 16)]])"
    by (simp add: corner_example_def r1)
  moreover from inst t run have "polygons (synthesized corner_example)
       = [InsertPolygon ground_grid_avoidance
            [DPoint 0 16, DPoint (- 5) 16, DPoint (- 5) (- 16), DPoint 0 (- 16)],
          InsertPolygon ground_grid_avoidance
            [DPoint 116 100, DPoint 116 105, DPoint 84 105, DPoint 84 100]]"
    by (simp add: corner_example_def r1 r2)
  ultimately show ?thesis using ne t run by simp
qed

subsection \<open>A collinear middle vertex\<close>

lemma collinear_example_run:
  "produce_waveguide collinear_example [] = (Inr (), synthesized collinear_example)"
  using produce_waveguide_runs [OF collinear_example_well_formed, of "[]"] by simp

lemma collinear_example_turn: "turn (DPoint 0 0) (DPoint 100 0) (DPoint 200 0) = 0"
  by (simp add: turn_def collinear_example_headings)

lemma collinear_example_cells:
  "straight_cells (synthesized collinear_example)
     = [InsertCell (WaveguideCoplanarStraight (100 + 1 / 1000))
          (DCplxTrans 1 0 False (DVector 0 0)),
        InsertCell (WaveguideCoplanarStraight (100 + 1 / 1000))
          (DCplxTrans 1 0 False (DVector (100 - 1 / 1000) 0))]"
proof -
  have ps: "path collinear_example = [DPoint 0 0, DPoint 100 0, DPoint 200 0]"
    "elem_r collinear_example = 30" "corner_safety_overlap collinear_example = 1 / 1000"
    "term1 collinear_example = 0" "term2 collinear_example = 0"
    by (simp_all add: collinear_example_def)
  let ?ps = "[DPoint 0 0, DPoint 100 0, DPoint 200 0]"
  have c: "spec_cut (DPoint 0 0) (DPoint 100 0) (DPoint 200 0) 30 = 0"
    by (simp add: spec_cut_def side_def vprod_sign_def p_sub_def)
  have c0: "spec_cursor collinear_example ?ps 0 = DPoint 0 0"
    by (simp add: first_segment_start_def ps)
  have c1: "spec_cursor collinear_example ?ps (Suc 0) = DPoint (100 - 1 / 1000) 0"
    by (simp add: ps c unit_v_def p_sub_def v_length_axis v_scale_def p_add_v_def p_sub_v_def)
  have h: "heading (DPoint 0 0) (DPoint 100 0) = 0"
          "heading (DPoint (99999 / 1000) 0) (DPoint 200 0) = 0"
    by (simp_all add: heading_def atan2_def)
  have s0: "straight_piece collinear_example ?ps 0
              = InsertCell (WaveguideCoplanarStraight (100 + 1 / 1000))
                  (DCplxTrans 1 0 False (DVector 0 0))"
    unfolding straight_piece_def straight_at_def Let_def c0
    by (simp add: ps c h distance_horizontal to_v_def)
  have f: "final_piece collinear_example ?ps
              = InsertCell (WaveguideCoplanarStraight (100 + 1 / 1000))
                  (DCplxTrans 1 0 False (DVector (100 - 1 / 1000) 0))"
    unfolding final_piece_def Let_def
    by (simp add: ps c1 h distance_horizontal to_v_def del: spec_cursor.simps)
  show ?thesis
    unfolding straight_cells_synthesized ps
    by (simp add: s0 f del: spec_cursor.simps)
qed

text \<open>
  Claim C4 as stated fails: on the three collinear points \<open>(0,0), (100,0), (200,0)\<close> the
  turn is 0, no arc is emitted, and two straight cells are inserted, not one.
\<close>

theorem collinear_two_straight_cells:
  "length (path collinear_example) = 3
   \<and> \<bar>turn (path collinear_example ! 0) (path collinear_example ! 1)
          (path collinear_example ! 2)\<bar> < min_angle
   \<and> produce_waveguide collinear_example [] = (Inr (), synthesized collinear_example)
   \<and> curved_cells (synthesized collinear_example) = []
   \<and> straight_cells (synthesized collinear_example)
       = [InsertCell (WaveguideCoplanarStraight (100 + 1 / 1000))
            (DCplxTrans 1 0 False (DVector 0 0)),
          InsertCell (WaveguideCoplanarStraight (100 + 1 / 1000))
            (DCplxTrans 1 0 False (DVector (100 - 1 / 1000) 0))]"
proof -
  have ps: "path collinear_example = [DPoint 0 0, DPoint 100 0, DPoint 200 0]"
    by (simp add: collinear_example_def)
  have "curved_cells (synthesized collinear_example) = []"
    unfolding curved_cells_synthesized ps
    by (simp add: collinear_example_turn min_angle_def)
  then show ?thesis
    using collinear_example_run collinear_example_cells
    by (simp add: ps collinear_example_turn min_angle_def)
qed

text \<open>
  Claim C4, as amended. For a path of three points whose turn at the middle vertex has a
  magnitude below \<open>min_angle\<close>, a completed run emits no arc and exactly two straight
  cells, one for each leg: the piece of the middle vertex and the final piece. The legs are
  not merged into one cell.
\<close>

theorem collinear_vertex_pieces:
  "length (path elem) = 3
   \<Longrightarrow> \<bar>turn (path elem ! 0) (path elem ! 1) (path elem ! 2)\<bar> < min_angle
   \<Longrightarrow> produce_waveguide elem [] = (Inr (), cell)
   \<Longrightarrow> curved_cells cell = []
       \<and> straight_cells cell = [straight_piece elem (path elem) 0, final_piece elem (path elem)]"
proof -
  assume len: "length (path elem) = 3"
    and small: "\<bar>turn (path elem ! 0) (path elem ! 1) (path elem ! 2)\<bar> < min_angle"
    and run: "produce_waveguide elem [] = (Inr (), cell)"
  from produce_waveguide_success(2) [OF run] have cell: "cell = synthesized elem" by simp
  have one: "[0 ..< length (path elem) - 2] = [0]"
    by (simp add: len)
  have two: "Suc (Suc 0) = 2" by simp
  show ?thesis
    unfolding cell curved_cells_synthesized straight_cells_synthesized one
    using small by (simp add: two)
qed

theorem collinear_vertex_pieces_witness:
  "length (path collinear_example) = 3
   \<and> \<bar>turn (path collinear_example ! 0) (path collinear_example ! 1)
          (path collinear_example ! 2)\<bar> < min_angle
   \<and> produce_waveguide collinear_example [] = (Inr (), synthesized collinear_example)
   \<and> curved_cells (synthesized collinear_example) = []
   \<and> length (straight_cells (synthesized collinear_example)) = 2"
proof -
  have ps: "path collinear_example = [DPoint 0 0, DPoint 100 0, DPoint 200 0]"
    by (simp add: collinear_example_def)
  have len: "length (path collinear_example) = 3"
    by (simp add: ps)
  have small: "\<bar>turn (path collinear_example ! 0) (path collinear_example ! 1)
          (path collinear_example ! 2)\<bar> < min_angle"
    by (simp add: ps collinear_example_turn min_angle_def)
  from collinear_vertex_pieces [OF len small collinear_example_run]
  show ?thesis
    using len small collinear_example_run by simp
qed

end
